theory Spec2Isabelle
  imports Main
begin

section \<open>Configuration (config.py)\<close>

text \<open>
  The constants of \<^verbatim>\<open>config.py\<close> that the media processor reads. Python dictionaries
  are association lists in the order the source writes them (the processor iterates over
  \<^verbatim>\<open>CODEC_FORMAT_MAP.values()\<close>, so the order matters).
\<close>

definition DEFAULT_VIDEO_CODEC :: string where
  "DEFAULT_VIDEO_CODEC = ''h264''"

definition ALLOWED_VIDEO_CODECS :: "string list" where
  "ALLOWED_VIDEO_CODECS = [''h264'', ''vp9'', ''av1'']"

definition PREFERRED_FORMATS :: "(string \<times> string list) list" where
  "PREFERRED_FORMATS = [(''.mp4'', [''h264'']), (''.webm'', [''vp9'', ''av1''])]"

record format_info =
  fmt_ext :: string
  fmt_mime :: string
  fmt_container_opts :: "string list"

definition h264_format :: format_info where
  "h264_format = \<lparr>fmt_ext = ''.mp4'', fmt_mime = ''video/mp4'',
     fmt_container_opts = [''-movflags'', ''+faststart'']\<rparr>"

definition webm_format :: format_info where
  "webm_format = \<lparr>fmt_ext = ''.webm'', fmt_mime = ''video/webm'', fmt_container_opts = []\<rparr>"

definition CODEC_FORMAT_MAP :: "(string \<times> format_info) list" where
  "CODEC_FORMAT_MAP = [(''h264'', h264_format), (''vp9'', webm_format), (''av1'', webm_format)]"

definition MAX_PRE_RESIZE_WIDTH :: int where
  "MAX_PRE_RESIZE_WIDTH = 3840"

definition MAX_PRE_RESIZE_HEIGHT :: int where
  "MAX_PRE_RESIZE_HEIGHT = 2160"

definition FFMPEG_PRE_RESIZE_OPTIONS :: "string list" where
  "FFMPEG_PRE_RESIZE_OPTIONS =
     [''-c:v'', ''libx264'', ''-preset'', ''ultrafast'', ''-crf'', ''8'', ''-c:a'', ''copy'', ''-sn'']"

definition FFMPEG_COMMON_OPTIONS :: "string list" where
  "FFMPEG_COMMON_OPTIONS = [''-map_metadata'', ''0'', ''-map_chapters'', ''0'', ''-threads'', ''0'']"

definition FFMPEG_CODEC_OPTIONS_CPU :: "(string \<times> string list) list" where
  "FFMPEG_CODEC_OPTIONS_CPU =
     [(''h264'', [''-c:v'', ''libx264'', ''-preset'', ''medium'', ''-crf'', ''23'',
                  ''-profile:v'', ''high'', ''-level:v'', ''4.1'']),
      (''vp9'', [''-c:v'', ''libvpx-vp9'', ''-crf'', ''31'', ''-b:v'', ''0'',
                 ''-deadline'', ''good'', ''-row-mt'', ''1'']),
      (''av1'', [''-c:v'', ''libaom-av1'', ''-crf'', ''35'', ''-b:v'', ''0'',
                 ''-cpu-used'', ''6'', ''-row-mt'', ''1'',
                 ''-tile-columns'', ''2'', ''-tile-rows'', ''2''])]"

definition FFMPEG_CODEC_OPTIONS_VAAPI :: "(string \<times> string list) list" where
  "FFMPEG_CODEC_OPTIONS_VAAPI =
     [(''h264'', [''-c:v'', ''h264_vaapi'', ''-qp'', ''23'', ''-profile:v'', ''high'']),
      (''vp9'', [''-c:v'', ''vp9_vaapi'', ''-qp'', ''31'']),
      (''av1'', [''-c:v'', ''av1_vaapi'', ''-rc_mode'', ''2'', ''-b:v'', ''1M''])]"

definition ENABLE_TRANSCODING :: bool where
  "ENABLE_TRANSCODING = True"

definition VAAPI_DEVICE_PATH :: string where
  "VAAPI_DEVICE_PATH = []"

definition MEDIA_OUTPUT_DIR_NAME :: string where
  "MEDIA_OUTPUT_DIR_NAME = ''videos''"

definition VAAPI_DECODABLE_CODECS :: "string list" where
  "VAAPI_DECODABLE_CODECS = [''h264'', ''hevc'', ''vp9'', ''av1'', ''mpeg2video'', ''vc1'']"

lemmas config_defs =
  DEFAULT_VIDEO_CODEC_def ALLOWED_VIDEO_CODECS_def PREFERRED_FORMATS_def h264_format_def
  webm_format_def CODEC_FORMAT_MAP_def MAX_PRE_RESIZE_WIDTH_def MAX_PRE_RESIZE_HEIGHT_def
  FFMPEG_PRE_RESIZE_OPTIONS_def FFMPEG_COMMON_OPTIONS_def FFMPEG_CODEC_OPTIONS_CPU_def
  FFMPEG_CODEC_OPTIONS_VAAPI_def ENABLE_TRANSCODING_def VAAPI_DEVICE_PATH_def
  MEDIA_OUTPUT_DIR_NAME_def VAAPI_DECODABLE_CODECS_def


section \<open>Strings\<close>

text \<open>
  Python truthiness of an optional string (\<^verbatim>\<open>None\<close> and the empty string are false),
  \<^verbatim>\<open>str.lower\<close>, \<^verbatim>\<open>str.isalnum\<close>, \<^verbatim>\<open>str.strip\<close>, \<^verbatim>\<open>str.join\<close> and
  \<^verbatim>\<open>str(int)\<close>. A character is a code point from 0 to 255 (ASCII and Latin-1), and on
  these the three character tests below agree with Python's Unicode-aware methods; text
  with a code point above 255 has no counterpart here.
\<close>

definition truthy :: "string option \<Rightarrow> bool" where
  "truthy v = (case v of None \<Rightarrow> False | Some s \<Rightarrow> s \<noteq> [])"

definition str_of :: "string option \<Rightarrow> string" where
  "str_of v = (case v of None \<Rightarrow> [] | Some s \<Rightarrow> s)"

definition lower_char :: "char \<Rightarrow> char" where
  "lower_char c = (let n = (of_char c :: nat) in
     if (65 \<le> n \<and> n \<le> 90) \<or> (192 \<le> n \<and> n \<le> 214) \<or> (216 \<le> n \<and> n \<le> 222)
     then char_of (n + 32) else c)"

definition str_lower :: "string \<Rightarrow> string" where
  "str_lower s = map lower_char s"




fun str_join :: "string \<Rightarrow> string list \<Rightarrow> string" where
  "str_join sep [] = []"
| "str_join sep [x] = x"
| "str_join sep (x # y # ys) = x @ sep @ str_join sep (y # ys)"

definition digit_char :: "nat \<Rightarrow> char" where
  "digit_char d = char_of (48 + d)"

fun str_nat :: "nat \<Rightarrow> string" where
  "str_nat n = (if n < 10 then [digit_char n] else str_nat (n div 10) @ [digit_char (n mod 10)])"

definition str_int :: "int \<Rightarrow> string" where
  "str_int i = (if i < 0 then CHR ''-'' # str_nat (nat (- i)) else str_nat (nat i))"

text \<open>
  \<^verbatim>\<open>f"{factor / 100.0}"\<close> for an integer factor between 1 and 100: Python prints the
  shortest decimal that reads back as the same float, which for these quotients is the
  two-digit decimal without a trailing zero (\<^verbatim>\<open>0.07\<close>, \<^verbatim>\<open>0.5\<close>, \<^verbatim>\<open>1.0\<close>).
\<close>

definition str_ratio :: "int \<Rightarrow> string" where
  "str_ratio factor =
     (let k = nat factor in
      if k = 100 then ''1.0''
      else if k mod 10 = 0 then ''0.'' @ [digit_char (k div 10)]
      else ''0.'' @ [digit_char (k div 10), digit_char (k mod 10)])"

text \<open>
  \<^verbatim>\<open>os.path.splitext(name)[1]\<close> of a file name that does not start with a dot: the part
  from the last dot on, empty when there is no dot.
\<close>

definition splitext_ext :: "string \<Rightarrow> string" where
  "splitext_ext name =
     (if CHR ''.'' \<in> set name then CHR ''.'' # rev (takeWhile (\<lambda>c. c \<noteq> CHR ''.'') (rev name))
      else [])"

definition splitext_root :: "string \<Rightarrow> string" where
  "splitext_root name = take (length name - length (splitext_ext name)) name"


section \<open>Files, external tools and the state of one run\<close>

text \<open>
  Every file the processor touches for one item lives in \<^verbatim>\<open>media_output_dir\<close> and is named
  either \<^verbatim>\<open>safe_base + suffix\<close> for a suffix the code chooses (\<open>Base suffix\<close>), or by
  \<^verbatim>\<open>tempfile.NamedTemporaryFile\<close> from a prefix, a random part and a suffix
  (\<open>Temp kind suffix n\<close>, \<open>n\<close> standing for the random part). The sanitised base name has
  no dot, and every temporary name continues it with an underscore where every \<open>Base\<close>
  name continues it with a dot, so two paths are the same file exactly when they are equal
  here. The prefixes are \<^verbatim>\<open>{input_base}_\<close> (pre-resize), \<^verbatim>\<open>{final_base}_final_vaapi_\<close> and
  \<^verbatim>\<open>{final_base}_final_cpu_\<close>.
\<close>

datatype tmp_kind = Tmp_preresize | Tmp_final_vaapi | Tmp_final_cpu

datatype path = Base string | Temp tmp_kind string nat

type_synonym bytes = "nat list"

type_synonym fs = "path \<rightharpoonup> bytes"

fun path_suffix :: "path \<Rightarrow> string" where
  "path_suffix (Base suffix) = suffix"
| "path_suffix (Temp kind suffix n) = suffix"

definition path_ext :: "path \<Rightarrow> string" where
  "path_ext p = splitext_ext (path_suffix p)"

datatype arg = Str string | Path path

text \<open>
  What \<^verbatim>\<open>subprocess.run\<close> of ffmpeg can do: fail to start the program (an exception), or
  return with an exit status, leaving the output path absent or holding some bytes.
\<close>

datatype run_outcome = Spawn_error | Exited int "bytes option"

text \<open>
  What the probe can do: fail to start, or exit with a status and a standard output that is
  not JSON, is JSON of an unexpected shape (the code's accessors raise), has no stream, or
  has a first stream with optional width, height and codec name.
\<close>

datatype probe_stdout =
    Json_invalid
  | Json_unexpected
  | Json_no_streams
  | Json_stream "int option" "int option" "string option"

datatype probe_outcome = Probe_spawn_error | Probe_exited int probe_stdout

datatype magic_outcome = Magic_raises | Magic_returns string

datatype attempt = Attempt1_direct_vaapi | Attempt2_vaapi_from_h264 | Attempt3_cpu_fallback

text \<open>
  One entry of the run's log per stage helper that got past its guards: which helper with
  which arguments (for the final encode step also which of the orchestrator's three call
  sites, as its \<^verbatim>\<open>Attempt N\<close> message says), the ffmpeg command it ran and what came of it
  (\<open>None\<close> when no process was started), and the success flag the helper returned.
\<close>

datatype call =
    Pre_resize_call path
  | Scaling_call path path
  | Intermediate_h264_call path path
  | Final_encode_call attempt path path string "string option" bool bool

record event =
  ev_call :: call
  ev_run :: "(arg list \<times> run_outcome) option"
  ev_ok :: bool

record state =
  files :: fs
  events :: "event list"

text \<open>
  The environment of one run. The external tools answer as functions of the file system
  they see and of their arguments; a rename, a deletion or the first write can be refused
  (\<^verbatim>\<open>OSError\<close>) per path; \<open>mkstemp_pick\<close> is the random part
  \<^verbatim>\<open>NamedTemporaryFile\<close> draws, \<open>None\<close> when it raises.
\<close>

record env =
  ffmpeg_run :: "fs \<Rightarrow> arg list \<Rightarrow> run_outcome"
  ffprobe_run :: "fs \<Rightarrow> path \<Rightarrow> probe_outcome"
  magic_from_file :: "fs \<Rightarrow> path \<Rightarrow> magic_outcome"
  mkstemp_pick :: "fs \<Rightarrow> tmp_kind \<Rightarrow> string \<Rightarrow> nat option"
  move_raises :: "path \<Rightarrow> path \<Rightarrow> bool"
  remove_raises :: "path \<Rightarrow> bool"
  write_raises :: "path \<Rightarrow> bool"

datatype exn = ValueError string | OSError | CalledProcessError int | JSONDecodeError | TypeError

definition exists :: "state \<Rightarrow> path \<Rightarrow> bool" where
  "exists s p = (files s p \<noteq> None)"

definition getsize :: "state \<Rightarrow> path \<Rightarrow> nat" where
  "getsize s p = (case files s p of None \<Rightarrow> 0 | Some b \<Rightarrow> length b)"

definition os_remove :: "env \<Rightarrow> path \<Rightarrow> state \<Rightarrow> state option" where
  "os_remove env p s =
     (if remove_raises env p \<or> files s p = None then None
      else Some (s\<lparr>files := (files s)(p := None)\<rparr>))"

definition shutil_move :: "env \<Rightarrow> path \<Rightarrow> path \<Rightarrow> state \<Rightarrow> state option" where
  "shutil_move env src dst s =
     (if move_raises env src dst \<or> files s src = None then None
      else if src = dst then Some s
      else Some (s\<lparr>files := (files s)(dst := files s src, src := None)\<rparr>))"

text \<open>\<^verbatim>\<open>if os.path.exists(p): try: os.remove(p) except OSError: pass\<close>\<close>

definition remove_if_exists :: "env \<Rightarrow> path \<Rightarrow> state \<Rightarrow> state" where
  "remove_if_exists env p s =
     (if exists s p then (case os_remove env p s of None \<Rightarrow> s | Some s' \<Rightarrow> s') else s)"

definition named_temporary_file :: "env \<Rightarrow> tmp_kind \<Rightarrow> string \<Rightarrow> state \<Rightarrow> (state \<times> path) option" where
  "named_temporary_file env kind suffix s =
     (case mkstemp_pick env (files s) kind suffix of
        None \<Rightarrow> None
      | Some n \<Rightarrow>
          if files s (Temp kind suffix n) \<noteq> None then None
          else Some (s\<lparr>files := (files s)(Temp kind suffix n \<mapsto> [])\<rparr>, Temp kind suffix n))"

definition run_ffmpeg :: "env \<Rightarrow> arg list \<Rightarrow> path \<Rightarrow> state \<Rightarrow> state \<times> run_outcome" where
  "run_ffmpeg env cmd out s =
     (case ffmpeg_run env (files s) cmd of
        Spawn_error \<Rightarrow> (s, Spawn_error)
      | Exited rc content \<Rightarrow> (s\<lparr>files := (files s)(out := content)\<rparr>, Exited rc content))"

definition log_event :: "call \<Rightarrow> (arg list \<times> run_outcome) option \<Rightarrow> bool \<Rightarrow> state \<Rightarrow> state" where
  "log_event c r ok s = s\<lparr>events := events s @ [\<lparr>ev_call = c, ev_run = r, ev_ok = ok\<rparr>]\<rparr>"

text \<open>
  The test every encode helper applies to its output:
  \<^verbatim>\<open>result.returncode == 0 and os.path.exists(out) and os.path.getsize(out) > 0\<close>.
\<close>

definition encode_succeeded :: "run_outcome \<Rightarrow> state \<Rightarrow> path \<Rightarrow> bool" where
  "encode_succeeded oc s out =
     (case oc of Spawn_error \<Rightarrow> False | Exited rc content \<Rightarrow> rc = 0 \<and> exists s out \<and> getsize s out > 0)"


section \<open>The processor (MediaProcessor.__init__)\<close>

record processor =
  ffmpeg_path :: "string option"
  ffprobe_path :: "string option"
  enable_transcoding :: bool
  user_codec_choice :: "string option"
  scaling_factor :: "int option"
  target_codec :: string
  target_extension :: string
  target_mime_type :: string
  target_container_opts :: "string list"
  use_vaapi :: bool
  magic_available :: bool

text \<open>The command line passes the factor through \<^verbatim>\<open>type=int\<close>, so it is an integer here.\<close>

definition validate_and_set_scaling :: "int option \<Rightarrow> int option" where
  "validate_and_set_scaling scaling_factor_input =
     (case scaling_factor_input of
        None \<Rightarrow> None
      | Some factor \<Rightarrow> if 1 \<le> factor \<and> factor \<le> 100 then Some factor else None)"

definition determine_target_format :: "string option \<Rightarrow> string \<times> format_info" where
  "determine_target_format codec_choice_input =
     (let tc = (case codec_choice_input of
                  None \<Rightarrow> DEFAULT_VIDEO_CODEC
                | Some c \<Rightarrow> if c \<in> set ALLOWED_VIDEO_CODECS then c else DEFAULT_VIDEO_CODEC)
      in case map_of CODEC_FORMAT_MAP tc of
           None \<Rightarrow> (''h264'', h264_format)
         | Some format_info \<Rightarrow> (tc, format_info))"

definition validate_vaapi_request :: "bool \<Rightarrow> string option \<Rightarrow> bool \<Rightarrow> bool" where
  "validate_vaapi_request use_vaapi_input ffmpeg is_linux =
     (if \<not> use_vaapi_input then False
      else if \<not> truthy ffmpeg then False
      else if \<not> is_linux then False
      else if \<not> list_ex (\<lambda>codec. map_of FFMPEG_CODEC_OPTIONS_VAAPI codec \<noteq> None) ALLOWED_VIDEO_CODECS
        then False
      else True)"

definition init_processor ::
  "string option \<Rightarrow> string option \<Rightarrow> int option \<Rightarrow> bool \<Rightarrow> string option \<Rightarrow> bool \<Rightarrow> bool \<Rightarrow> processor" where
  "init_processor ffmpeg ffprobe scaling_factor_input use_vaapi_input codec_choice is_linux magic_ok =
     (let (tc, format_info) = determine_target_format codec_choice in
      \<lparr>ffmpeg_path = ffmpeg,
       ffprobe_path = ffprobe,
       enable_transcoding = (ENABLE_TRANSCODING \<and> truthy ffmpeg),
       user_codec_choice = codec_choice,
       scaling_factor = validate_and_set_scaling scaling_factor_input,
       target_codec = tc,
       target_extension = fmt_ext format_info,
       target_mime_type = fmt_mime format_info,
       target_container_opts = fmt_container_opts format_info,
       use_vaapi = validate_vaapi_request use_vaapi_input ffmpeg is_linux,
       magic_available = magic_ok\<rparr>)"


section \<open>Format prober (_get_video_info)\<close>

record video_info =
  width :: int
  height :: int
  codec_name :: string




section \<open>Pre-resize stage (_perform_pre_resize)\<close>

definition sq :: string where
  "sq = [CHR 0x27]"

definition pre_resize_filter :: string where
  "pre_resize_filter =
     ''scale=w='' @ sq @ ''min(iw,trunc('' @ str_int MAX_PRE_RESIZE_WIDTH @ ''/2)*2)'' @ sq @
     '':h='' @ sq @ ''min(ih,trunc('' @ str_int MAX_PRE_RESIZE_HEIGHT @ ''/2)*2)'' @ sq @
     '':force_original_aspect_ratio=decrease:flags=bicubic''"

definition pre_resize_cmd :: "string \<Rightarrow> path \<Rightarrow> path \<Rightarrow> arg list" where
  "pre_resize_cmd ff input_path temp_path =
     [Str ff, Str ''-y'', Str ''-i'', Path input_path] @ [Str ''-vf'', Str pre_resize_filter] @
     map Str FFMPEG_PRE_RESIZE_OPTIONS @ [Path temp_path]"

text \<open>
  The \<^verbatim>\<open>finally\<close> clause of a helper that wrote to a temporary file: when the helper did
  not succeed and the file is there, try to delete it.
\<close>

definition perform_pre_resize ::
  "processor \<Rightarrow> env \<Rightarrow> path \<Rightarrow> video_info option \<Rightarrow> state \<Rightarrow> exn + (state \<times> bool \<times> path)" where
  "perform_pre_resize p env input_path video_info s =
     (if \<not> truthy (ffmpeg_path p) then Inr (s, False, input_path)
      else case video_info of
        None \<Rightarrow> Inr (s, False, input_path)
      | Some vi \<Rightarrow>
          if MAX_PRE_RESIZE_WIDTH = 0 \<or> MAX_PRE_RESIZE_HEIGHT = 0 \<or>
             (width vi \<le> MAX_PRE_RESIZE_WIDTH \<and> height vi \<le> MAX_PRE_RESIZE_HEIGHT)
          then Inr (s, False, input_path)
          else (case named_temporary_file env Tmp_preresize ''.preresize.mp4'' s of
                  None \<Rightarrow> Inr (log_event (Pre_resize_call input_path) None False s, False, input_path)
                | Some (s1, temp_path) \<Rightarrow>
                    (let cmd = pre_resize_cmd (str_of (ffmpeg_path p)) input_path temp_path;
                         (s2, oc) = run_ffmpeg env cmd temp_path s1;
                         (s3, success) =
                           (if encode_succeeded oc s2 temp_path
                            then (case shutil_move env temp_path input_path s2 of
                                    Some s3 \<Rightarrow> (s3, True)
                                  | None \<Rightarrow> (remove_if_exists env temp_path s2, False))
                            else (remove_if_exists env temp_path s2, False))
                     in Inr (log_event (Pre_resize_call input_path) (Some (cmd, oc)) success s3,
                             success, input_path))))"


section \<open>Scaling stage and compatibility intermediate\<close>

definition scaling_filter :: "int \<Rightarrow> string" where
  "scaling_filter factor =
     ''scale=w='' @ sq @ ''trunc(iw*'' @ str_ratio factor @ ''/2)*2'' @ sq @
     '':h='' @ sq @ ''trunc(ih*'' @ str_ratio factor @ ''/2)*2'' @ sq @ '':flags=lanczos''"

definition scaling_cmd :: "string \<Rightarrow> int \<Rightarrow> path \<Rightarrow> path \<Rightarrow> arg list" where
  "scaling_cmd ff factor input_path intermediate_output_path =
     [Str ff, Str ''-y'', Str ''-i'', Path input_path, Str ''-vf'', Str (scaling_filter factor),
      Str ''-c:v'', Str ''libx264'', Str ''-preset'', Str ''fast'', Str ''-crf'', Str ''18'',
      Str ''-c:a'', Str ''copy'', Str ''-movflags'', Str ''+faststart'',
      Path intermediate_output_path]"

definition perform_scaling_step ::
  "processor \<Rightarrow> env \<Rightarrow> path \<Rightarrow> path \<Rightarrow> state \<Rightarrow> exn + (state \<times> bool)" where
  "perform_scaling_step p env input_path intermediate_output_path s =
     (if \<not> truthy (ffmpeg_path p) then Inr (s, False)
      else case scaling_factor p of
        None \<Rightarrow> Inr (s, False)
      | Some factor \<Rightarrow>
          (let cmd = scaling_cmd (str_of (ffmpeg_path p)) factor input_path intermediate_output_path;
               (s1, oc) = run_ffmpeg env cmd intermediate_output_path s;
               ok = encode_succeeded oc s1 intermediate_output_path;
               s2 = (if ok then s1 else remove_if_exists env intermediate_output_path s1)
           in Inr (log_event (Scaling_call input_path intermediate_output_path) (Some (cmd, oc)) ok s2,
                   ok)))"

definition intermediate_cmd :: "string \<Rightarrow> path \<Rightarrow> path \<Rightarrow> arg list" where
  "intermediate_cmd ff input_path intermediate_h264_output_path =
     [Str ff, Str ''-y'', Str ''-i'', Path input_path,
      Str ''-c:v'', Str ''libx264'', Str ''-preset'', Str ''ultrafast'', Str ''-crf'', Str ''17'',
      Str ''-c:a'', Str ''copy'', Str ''-movflags'', Str ''+faststart'',
      Path intermediate_h264_output_path]"

definition perform_intermediate_h264_encode ::
  "processor \<Rightarrow> env \<Rightarrow> path \<Rightarrow> path \<Rightarrow> state \<Rightarrow> exn + (state \<times> bool)" where
  "perform_intermediate_h264_encode p env input_path intermediate_h264_output_path s =
     (if \<not> truthy (ffmpeg_path p) then Inr (s, False)
      else
        (let cmd = intermediate_cmd (str_of (ffmpeg_path p)) input_path intermediate_h264_output_path;
             (s1, oc) = run_ffmpeg env cmd intermediate_h264_output_path s;
             ok = encode_succeeded oc s1 intermediate_h264_output_path;
             s2 = (if ok then s1 else remove_if_exists env intermediate_h264_output_path s1)
         in Inr (log_event (Intermediate_h264_call input_path intermediate_h264_output_path)
                   (Some (cmd, oc)) ok s2, ok)))"


section \<open>Final encode step (_perform_final_encode_step)\<close>

definition init_device_str :: string where
  "init_device_str =
     ''vaapi=va'' @ (if VAAPI_DEVICE_PATH \<noteq> [] then '':'' @ VAAPI_DEVICE_PATH else [])"

definition in_codecs :: "string option \<Rightarrow> string list \<Rightarrow> bool" where
  "in_codecs c cs = (case c of None \<Rightarrow> False | Some n \<Rightarrow> n \<in> set cs)"

definition hw_decode_active :: "bool \<Rightarrow> string option \<Rightarrow> bool" where
  "hw_decode_active attempt_vaapi_decode source_codec_name =
     (attempt_vaapi_decode \<and> in_codecs source_codec_name VAAPI_DECODABLE_CODECS)"

definition vf_parts :: "string \<Rightarrow> bool \<Rightarrow> bool \<Rightarrow> string list" where
  "vf_parts target_codec' hw_decode use_vaapi_for_encode_attempt =
     (if use_vaapi_for_encode_attempt then
        (if \<not> hw_decode then [''format=pix_fmts=nv12'']
         else [''hwupload'', ''scale_vaapi=w=iw:h=ih:format=nv12''])
      else
        (if hw_decode then [''hwdownload'', ''format=pix_fmts=yuv420p'']
         else if target_codec' = ''av1'' then [''format=pix_fmts=yuv420p'']
         else []))"

text \<open>
  The codec options: a missing or empty entry takes the \<^verbatim>\<open>raise ValueError\<close> branch of
  the map the attempt encodes with.
\<close>

definition codec_options :: "string \<Rightarrow> bool \<Rightarrow> exn + string list" where
  "codec_options target_codec' use_vaapi_for_encode_attempt =
     (if use_vaapi_for_encode_attempt then
        (case map_of FFMPEG_CODEC_OPTIONS_VAAPI target_codec' of
           None \<Rightarrow> Inl (ValueError (''Missing VAAPI config for '' @ target_codec'))
         | Some opts \<Rightarrow>
             if opts \<noteq> [] then Inr opts
             else Inl (ValueError (''Missing VAAPI config for '' @ target_codec')))
      else
        (case map_of FFMPEG_CODEC_OPTIONS_CPU target_codec' of
           None \<Rightarrow> Inl (ValueError (''Missing CPU config for '' @ target_codec'))
         | Some opts \<Rightarrow>
             if opts \<noteq> [] then Inr opts
             else Inl (ValueError (''Missing CPU config for '' @ target_codec'))))"

definition audio_opts :: "path \<Rightarrow> string list" where
  "audio_opts final_output_path =
     (if str_lower (path_ext final_output_path) = ''.webm''
      then [''-c:a'', ''libopus'', ''-b:a'', ''96k'']
      else [''-c:a'', ''aac'', ''-b:a'', ''128k''])"

definition container_opts_of :: "string \<Rightarrow> string list" where
  "container_opts_of target_codec' =
     (case map_of CODEC_FORMAT_MAP target_codec' of
        None \<Rightarrow> []
      | Some target_format_info \<Rightarrow> fmt_container_opts target_format_info)"

definition final_encode_cmd ::
  "string \<Rightarrow> path \<Rightarrow> path \<Rightarrow> string \<Rightarrow> string option \<Rightarrow> bool \<Rightarrow> bool \<Rightarrow> path \<Rightarrow> exn + arg list" where
  "final_encode_cmd ff input_path final_output_path target_codec' source_codec_name
       attempt_vaapi_decode use_vaapi_for_encode_attempt temp_output_path =
     (let vaapi_needed_overall = (attempt_vaapi_decode \<or> use_vaapi_for_encode_attempt);
          hw_init = (if vaapi_needed_overall
                     then [''-init_hw_device'', init_device_str, ''-filter_hw_device'', ''va'']
                     else []);
          hw = hw_decode_active attempt_vaapi_decode source_codec_name;
          decode_opts = (if hw then [''-hwaccel'', ''vaapi'', ''-hwaccel_device'', ''va'',
                                      ''-hwaccel_output_format'', ''vaapi'']
                         else []);
          vf = vf_parts target_codec' hw use_vaapi_for_encode_attempt;
          vf_opts = (if vf \<noteq> [] then [''-vf'', str_join '','' vf] else [])
      in case codec_options target_codec' use_vaapi_for_encode_attempt of
           Inl e \<Rightarrow> Inl e
         | Inr opts \<Rightarrow>
             Inr ([Str ff, Str ''-y''] @ map Str hw_init @ map Str decode_opts @
                  [Str ''-i'', Path input_path] @
                  map Str [''-map'', ''0:v:0'', ''-map'', ''0:a:0?''] @
                  map Str vf_opts @ map Str opts @ map Str (audio_opts final_output_path) @
                  map Str FFMPEG_COMMON_OPTIONS @ map Str (container_opts_of target_codec') @
                  [Path temp_output_path]))"

definition perform_final_encode_step ::
  "processor \<Rightarrow> env \<Rightarrow> attempt \<Rightarrow> path \<Rightarrow> path \<Rightarrow> string \<Rightarrow> string option \<Rightarrow> bool \<Rightarrow> bool \<Rightarrow>
     state \<Rightarrow> exn + (state \<times> bool)" where
  "perform_final_encode_step p env site input_path final_output_path target_codec'
       source_codec_name attempt_vaapi_decode use_vaapi_for_encode_attempt s =
     (let c = Final_encode_call site input_path final_output_path target_codec' source_codec_name
                attempt_vaapi_decode use_vaapi_for_encode_attempt
      in if \<not> truthy (ffmpeg_path p) then Inr (s, False)
      else case named_temporary_file env
                  (if use_vaapi_for_encode_attempt then Tmp_final_vaapi else Tmp_final_cpu)
                  (path_ext final_output_path) s of
        None \<Rightarrow> Inr (log_event c None False s, False)
      | Some (s1, temp_output_path) \<Rightarrow>
          (case final_encode_cmd (str_of (ffmpeg_path p)) input_path final_output_path target_codec'
                  source_codec_name attempt_vaapi_decode use_vaapi_for_encode_attempt
                  temp_output_path of
             Inl e \<Rightarrow> Inl e
           | Inr cmd \<Rightarrow>
               (let (s2, oc) = run_ffmpeg env cmd temp_output_path s1;
                    (s3, final_encode_ok) =
                      (if encode_succeeded oc s2 temp_output_path
                       then (case shutil_move env temp_output_path final_output_path s2 of
                               Some s3 \<Rightarrow> (s3, True)
                             | None \<Rightarrow> (remove_if_exists env temp_output_path s2, False))
                       else (remove_if_exists env temp_output_path s2, False))
                in Inr (log_event c (Some (cmd, oc)) final_encode_ok s3, final_encode_ok))))"

section \<open>Orchestrator (process_annotation)\<close>

subsection \<open>Extraction, identification and the MIME-derived name\<close>
















subsection \<open>Scaling and the decision whether a final transcode is needed\<close>


definition scaled_path :: path where
  "scaled_path = Base ''.scale_hq_inter.mp4''"






subsection \<open>The final encode cascade\<close>

definition final_output_path :: "processor \<Rightarrow> path" where
  "final_output_path p = Base (target_extension p)"

definition intermediate_h264_path :: path where
  "intermediate_h264_path = Base ''.inter_h264.mp4''"

definition decode_vaapi_possible :: "processor \<Rightarrow> string option \<Rightarrow> bool" where
  "decode_vaapi_possible p codec =
     (use_vaapi p \<and> truthy codec \<and> in_codecs codec VAAPI_DECODABLE_CODECS)"

definition encode_vaapi_possible :: "processor \<Rightarrow> bool" where
  "encode_vaapi_possible p =
     (use_vaapi p \<and> map_of FFMPEG_CODEC_OPTIONS_VAAPI (target_codec p) \<noteq> None)"

text \<open>
  Lines 559 to 650, phase by phase as the source's comments name them. Each attempt hands
  the same \<^verbatim>\<open>final_output_path\<close> and \<^verbatim>\<open>target_codec\<close> to the final encode step.
\<close>

text \<open>Phase 1a: the direct VAAPI pipeline, when the source is decodable.\<close>

definition phase_1a :: "processor \<Rightarrow> env \<Rightarrow> path \<Rightarrow> string option \<Rightarrow> state \<Rightarrow> exn + (state \<times> bool)" where
  "phase_1a p env input codec s =
     (if decode_vaapi_possible p codec
      then perform_final_encode_step p env Attempt1_direct_vaapi input (final_output_path p)
             (target_codec p) codec True True s
      else Inr (s, False))"

text \<open>
  Phases 1b and 1c: the H.264 intermediate from the cascade's own input, then VAAPI again
  from the intermediate. The last component is \<^verbatim>\<open>intermediate_h264_file\<close>.
\<close>

definition phase_1b ::
  "processor \<Rightarrow> env \<Rightarrow> path \<Rightarrow> state \<Rightarrow> exn + (state \<times> bool \<times> path option)" where
  "phase_1b p env input s =
     (case perform_intermediate_h264_encode p env input intermediate_h264_path s of
        Inl e \<Rightarrow> Inl e
      | Inr (s2, intermediate_ok) \<Rightarrow>
          if intermediate_ok then
            (case perform_final_encode_step p env Attempt2_vaapi_from_h264
                    intermediate_h264_path (final_output_path p) (target_codec p)
                    (Some ''h264'') True True s2 of
               Inl e \<Rightarrow> Inl e
             | Inr (s3, success_vaapi_from_h264) \<Rightarrow>
                 Inr (s3, success_vaapi_from_h264, Some intermediate_h264_path))
          else Inr (s2, False, Some intermediate_h264_path))"

text \<open>Phase 2: the CPU fallback and the three values it computes first.\<close>

definition cpu_input_path :: "path option \<Rightarrow> path \<Rightarrow> state \<Rightarrow> path" where
  "cpu_input_path intermediate_h264_file input s =
     (case intermediate_h264_file of
        Some f \<Rightarrow> if exists s f then f else input
      | None \<Rightarrow> input)"

definition cpu_source_codec :: "path option \<Rightarrow> path \<Rightarrow> string option \<Rightarrow> state \<Rightarrow> string option" where
  "cpu_source_codec intermediate_h264_file input codec s =
     (if Some (cpu_input_path intermediate_h264_file input s) = intermediate_h264_file
      then Some ''h264'' else codec)"

definition cpu_attempt_decode ::
  "processor \<Rightarrow> path option \<Rightarrow> path \<Rightarrow> string option \<Rightarrow> state \<Rightarrow> bool" where
  "cpu_attempt_decode p intermediate_h264_file input codec s =
     (if cpu_source_codec intermediate_h264_file input codec s = Some ''h264'' then True
      else decode_vaapi_possible p codec)"

definition phase_2 ::
  "processor \<Rightarrow> env \<Rightarrow> path \<Rightarrow> string option \<Rightarrow> path option \<Rightarrow> state \<Rightarrow> exn + (state \<times> bool)" where
  "phase_2 p env input codec intermediate_h264_file s =
     perform_final_encode_step p env Attempt3_cpu_fallback
       (cpu_input_path intermediate_h264_file input s) (final_output_path p) (target_codec p)
       (cpu_source_codec intermediate_h264_file input codec s)
       (cpu_attempt_decode p intermediate_h264_file input codec s) False s"

text \<open>
  Phase 1 as a whole (``can we encode the target with VAAPI?''): the state,
  \<^verbatim>\<open>final_encode_success\<close> and \<^verbatim>\<open>intermediate_h264_file\<close> (\<open>None\<close> while the
  intermediate was never asked for).
\<close>

definition phase_1 ::
  "processor \<Rightarrow> env \<Rightarrow> path \<Rightarrow> string option \<Rightarrow> state \<Rightarrow> exn + (state \<times> bool \<times> path option)" where
  "phase_1 p env input codec s =
     (if encode_vaapi_possible p then
        (case phase_1a p env input codec s of
           Inl e \<Rightarrow> Inl e
         | Inr (s1, success_direct_vaapi) \<Rightarrow>
             if \<not> success_direct_vaapi then phase_1b p env input s1
             else Inr (s1, True, None))
      else Inr (s, False, None))"

definition final_encode_cascade ::
  "processor \<Rightarrow> env \<Rightarrow> path \<Rightarrow> string option \<Rightarrow> state \<Rightarrow> exn + (state \<times> bool \<times> path option)" where
  "final_encode_cascade p env input codec s =
     (case phase_1 p env input codec s of
        Inl e \<Rightarrow> Inl e
      | Inr (s3, final_encode_success, intermediate_h264_file) \<Rightarrow>
          if \<not> final_encode_success then
            (case phase_2 p env input codec intermediate_h264_file s3 of
               Inl e \<Rightarrow> Inl e
             | Inr (s4, success_cpu) \<Rightarrow> Inr (s4, success_cpu, intermediate_h264_file))
          else Inr (s3, True, intermediate_h264_file))"


subsection \<open>Result, cleanup and return\<close>








section \<open>Specification vocabulary and example runs\<close>

definition temps :: "path set" where
  "temps = {q. \<exists>kind suffix n. q = Temp kind suffix n}"

definition untouched :: "path set \<Rightarrow> state \<Rightarrow> state \<Rightarrow> bool" where
  "untouched A s s' = (\<forall>q. q \<notin> A \<longrightarrow> files s' q = files s q)"

definition run_ok :: "run_outcome \<Rightarrow> bool" where
  "run_ok oc = (case oc of Spawn_error \<Rightarrow> False | Exited rc content \<Rightarrow>
      rc = 0 \<and> (case content of None \<Rightarrow> False | Some b \<Rightarrow> length b > 0))"

definition removals_succeed :: "env \<Rightarrow> bool" where
  "removals_succeed env = (\<forall>q. \<not> remove_raises env q)"

definition effect :: "env \<Rightarrow> path set \<Rightarrow> state \<Rightarrow> state \<Rightarrow> bool" where
  "effect env A s s' =
     (untouched (A \<union> temps) s s' \<and> (removals_succeed env \<longrightarrow> untouched A s s'))"


definition a1_call :: "processor \<Rightarrow> path \<Rightarrow> string option \<Rightarrow> call" where
  "a1_call p input codec =
     Final_encode_call Attempt1_direct_vaapi input (final_output_path p) (target_codec p) codec True True"

definition inter_call :: "path \<Rightarrow> call" where
  "inter_call input = Intermediate_h264_call input intermediate_h264_path"

definition a2_call :: "processor \<Rightarrow> call" where
  "a2_call p =
     Final_encode_call Attempt2_vaapi_from_h264 intermediate_h264_path (final_output_path p)
       (target_codec p) (Some ''h264'') True True"

definition a3_call :: "processor \<Rightarrow> path \<Rightarrow> string option \<Rightarrow> bool \<Rightarrow> call" where
  "a3_call p cpu_in cpu_codec cpu_dec =
     Final_encode_call Attempt3_cpu_fallback cpu_in (final_output_path p) (target_codec p)
       cpu_codec cpu_dec False"

definition constructed :: "processor \<Rightarrow> bool" where
  "constructed p =
     (p = init_processor (ffmpeg_path p) (ffprobe_path p) (scaling_factor p) (use_vaapi p)
            (user_codec_choice p) True (magic_available p))"

definition is_final_attempt :: "call \<Rightarrow> bool" where
  "is_final_attempt c = (case c of Final_encode_call site i out tc sc d v \<Rightarrow> True | _ \<Rightarrow> False)"






definition event_of_run :: "processor \<Rightarrow> env \<Rightarrow> event \<Rightarrow> bool" where
  "event_of_run p env e =
     (case ev_run e of
        None \<Rightarrow> \<not> ev_ok e
      | Some (cmd, oc) \<Rightarrow>
          (\<exists>fs. oc = ffmpeg_run env fs cmd) \<and> (ev_ok e \<longrightarrow> run_ok oc) \<and>
          (case ev_call e of
             Final_encode_call site i out tc sc d v \<Rightarrow>
               out = final_output_path p \<and>
               (\<exists>t. final_encode_cmd (str_of (ffmpeg_path p)) i out tc sc d v t = Inr cmd)
           | Intermediate_h264_call i out \<Rightarrow> cmd = intermediate_cmd (str_of (ffmpeg_path p)) i out
           | _ \<Rightarrow> True))"

definition logged :: "processor \<Rightarrow> env \<Rightarrow> state \<Rightarrow> state \<Rightarrow> bool" where
  "logged p env s s' = (\<exists>evs. events s' = events s @ evs \<and> list_all (event_of_run p env) evs)"

definition env_ok :: env where
  "env_ok = \<lparr>ffmpeg_run = (\<lambda>f cmd. Exited 0 (Some [1])),
             ffprobe_run = (\<lambda>f q. Probe_exited 0 (Json_stream (Some 640) (Some 480) (Some ''vp8''))),
             magic_from_file = (\<lambda>f q. Magic_returns ''video/webm''),
             mkstemp_pick = (\<lambda>f k x. Some 0),
             move_raises = (\<lambda>a b. False),
             remove_raises = (\<lambda>a. False),
             write_raises = (\<lambda>a. False)\<rparr>"

definition env_move_refused :: env where
  "env_move_refused = env_ok\<lparr>move_raises := (\<lambda>a b. True)\<rparr>"


definition proc_cpu :: processor where
  "proc_cpu = init_processor (Some ''ffmpeg'') (Some ''ffprobe'') None False None True True"


definition proc_scale_vp9 :: processor where
  "proc_scale_vp9 =
     init_processor (Some ''ffmpeg'') (Some ''ffprobe'') (Some 50) True (Some ''vp9'') True False"

definition proc_no_probe :: processor where
  "proc_no_probe = init_processor (Some ''ffmpeg'') None None True None True True"


definition dir_with :: "path \<Rightarrow> state" where
  "dir_with q = \<lparr>files = [q \<mapsto> [1, 2, 3]], events = []\<rparr>"









lemma Base_notin_temps [simp]: "Base x \<notin> temps"
  by (simp add: temps_def)

lemma Temp_in_temps [simp]: "Temp k x n \<in> temps"
  by (simp add: temps_def)

lemma untouched_refl [simp]: "untouched A s s"
  by (simp add: untouched_def)

lemma untouched_trans: "untouched A s s1 \<Longrightarrow> untouched B s1 s2 \<Longrightarrow> untouched (A \<union> B) s s2"
  by (simp add: untouched_def)

lemma untouched_mono: "untouched A s s' \<Longrightarrow> A \<subseteq> B \<Longrightarrow> untouched B s s'"
  by (auto simp: untouched_def)

lemma untouchedD: "untouched A s s' \<Longrightarrow> q \<notin> A \<Longrightarrow> files s' q = files s q"
  by (simp add: untouched_def)

lemma events_remove_if_exists [simp]: "events (remove_if_exists env q s) = events s"
  by (simp add: remove_if_exists_def os_remove_def)

lemma files_remove_if_exists:
  "files (remove_if_exists env q s) q' =
     (if q' = q \<and> \<not> remove_raises env q then None else files s q')"
  by (auto simp: remove_if_exists_def os_remove_def exists_def)

lemma untouched_remove_if_exists: "untouched {q} s (remove_if_exists env q s)"
  by (simp add: untouched_def files_remove_if_exists)

lemma events_log_event [simp]:
  "events (log_event c r ok s) = events s @ [\<lparr>ev_call = c, ev_run = r, ev_ok = ok\<rparr>]"
  by (simp add: log_event_def)

lemma files_log_event [simp]: "files (log_event c r ok s) = files s"
  by (simp add: log_event_def)

lemma named_temporary_file_Some:
  "named_temporary_file env kind suffix s = Some (s1, t) \<Longrightarrow>
     files s t = None \<and> files s1 = (files s)(t \<mapsto> []) \<and> events s1 = events s \<and> t \<in> temps"
  by (auto simp: named_temporary_file_def split: option.splits if_splits)


lemma shutil_move_Some:
  "shutil_move env src dst s = Some s' \<Longrightarrow>
     events s' = events s \<and> \<not> move_raises env src dst \<and> files s src \<noteq> None \<and>
     files s' dst = files s src \<and> (src \<noteq> dst \<longrightarrow> files s' src = None) \<and>
     (\<forall>q. q \<noteq> src \<and> q \<noteq> dst \<longrightarrow> files s' q = files s q)"
  by (auto simp: shutil_move_def split: if_splits)

lemma shutil_move_None:
  "shutil_move env src dst s = None \<longleftrightarrow> move_raises env src dst \<or> files s src = None"
  by (auto simp: shutil_move_def)

lemmas prim_defs = named_temporary_file_def run_ffmpeg_def shutil_move_def remove_if_exists_def
  os_remove_def log_event_def encode_succeeded_def exists_def getsize_def

lemma scaling_step_total: "\<exists>s' ok. perform_scaling_step p env i out s = Inr (s', ok)"
  by (auto simp: perform_scaling_step_def Let_def split: option.splits prod.splits)

lemma scaling_step_spec:
  assumes "perform_scaling_step p env i out s = Inr (s', ok)"
  shows "untouched {out} s s'"
    and "ok \<Longrightarrow> files s' out \<noteq> None"
    and "\<not> ok \<Longrightarrow> \<not> remove_raises env out \<Longrightarrow> truthy (ffmpeg_path p) \<Longrightarrow> scaling_factor p \<noteq> None \<Longrightarrow> files s' out = None"
    and "\<not> truthy (ffmpeg_path p) \<or> scaling_factor p = None \<Longrightarrow> s' = s \<and> \<not> ok"
  using assms
  unfolding perform_scaling_step_def untouched_def
  by (auto simp: Let_def prim_defs
      split: option.splits prod.splits if_splits run_outcome.splits)

lemma scaling_step_events:
  assumes "perform_scaling_step p env i out s = Inr (s', ok)"
    and "truthy (ffmpeg_path p)" and "scaling_factor p = Some factor"
  shows "events s' = events s @
           [\<lparr>ev_call = Scaling_call i out,
             ev_run = Some (scaling_cmd (str_of (ffmpeg_path p)) factor i out,
                            ffmpeg_run env (files s) (scaling_cmd (str_of (ffmpeg_path p)) factor i out)),
             ev_ok = ok\<rparr>]"
    and "ok = run_ok (ffmpeg_run env (files s) (scaling_cmd (str_of (ffmpeg_path p)) factor i out))"
  using assms
  unfolding perform_scaling_step_def
  by (auto simp: Let_def prim_defs run_ok_def
      split: option.splits prod.splits if_splits run_outcome.splits)

lemma intermediate_total: "\<exists>s' ok. perform_intermediate_h264_encode p env i out s = Inr (s', ok)"
  by (auto simp: perform_intermediate_h264_encode_def Let_def split: option.splits prod.splits)



lemma final_encode_cmd_total:
  "codec_options tc v = Inr opts \<Longrightarrow> \<exists>cmd. final_encode_cmd ff i out tc sc d v t = Inr cmd"
  by (simp add: final_encode_cmd_def Let_def)







lemma final_step_total:
  assumes "codec_options tc v = Inr opts"
  shows "\<exists>s' ok. perform_final_encode_step p env site i out tc sc d v s = Inr (s', ok)"
proof (cases "truthy (ffmpeg_path p)")
  case False
  then show ?thesis by (auto simp: perform_final_encode_step_def)
next
  case True
  show ?thesis
  proof (cases "named_temporary_file env (if v then Tmp_final_vaapi else Tmp_final_cpu) (path_ext out) s")
    case None
    with True show ?thesis by (auto simp: perform_final_encode_step_def)
  next
    case (Some a)
    obtain s1 t where a: "a = (s1, t)" by (cases a)
    obtain cmd where cmd: "final_encode_cmd (str_of (ffmpeg_path p)) i out tc sc d v t = Inr cmd"
      using final_encode_cmd_total [OF assms] by blast
    show ?thesis
      using True Some a cmd
      by (auto simp: perform_final_encode_step_def Let_def split: prod.splits)
  qed
qed



lemma pre_resize_cases:
  assumes "perform_pre_resize p env i vi s = Inr (s', r, i')"
  shows "i' = i \<and>
         ((s' = s \<and> \<not> r) \<or>
          (truthy (ffmpeg_path p) \<and> vi \<noteq> None \<and>
           (\<exists>rn. events s' = events s @ [\<lparr>ev_call = Pre_resize_call i, ev_run = rn, ev_ok = r\<rparr>]) \<and>
           (if r then \<exists>b. files s' = (files s)(i \<mapsto> b)
            else files s' = files s \<or>
                 (\<exists>t c. t \<in> temps \<and> files s t = None \<and> remove_raises env t \<and>
                        files s' = (files s)(t \<mapsto> c)))))"
proof (cases "\<not> truthy (ffmpeg_path p) \<or> vi = None \<or> MAX_PRE_RESIZE_WIDTH = 0 \<or> MAX_PRE_RESIZE_HEIGHT = 0 \<or>
    (width (the vi) \<le> MAX_PRE_RESIZE_WIDTH \<and> height (the vi) \<le> MAX_PRE_RESIZE_HEIGHT)")
  case True
  with assms show ?thesis
    by (auto simp: perform_pre_resize_def split: option.splits if_splits)
next
  case big: False
  then obtain info where vi: "vi = Some info" by auto
  let ?c = "Pre_resize_call i"
  show ?thesis
  proof (cases "named_temporary_file env Tmp_preresize ''.preresize.mp4'' s")
    case None
    with assms big vi show ?thesis by (auto simp: perform_pre_resize_def)
  next
    case (Some a)
    then obtain s1 t where nt: "named_temporary_file env Tmp_preresize ''.preresize.mp4'' s = Some (s1, t)"
      by (cases a) auto
    from named_temporary_file_Some [OF nt]
    have t: "files s t = None" "files s1 = (files s)(t \<mapsto> [])" "events s1 = events s" "t \<in> temps"
      by auto
    let ?cmd = "pre_resize_cmd (str_of (ffmpeg_path p)) i t"
    obtain s2 oc where run: "run_ffmpeg env ?cmd t s1 = (s2, oc)"
      by (cases "run_ffmpeg env ?cmd t s1") auto
    have s2: "events s2 = events s"
      "files s2 = (files s)(t \<mapsto> []) \<or> (\<exists>c. files s2 = (files s)(t := c))"
      using run t by (auto simp: run_ffmpeg_def split: run_outcome.splits)
    have res: "s' = log_event ?c (Some (?cmd, oc)) r
                 (if encode_succeeded oc s2 t
                  then (case shutil_move env t i s2 of
                          Some s3 \<Rightarrow> s3 | None \<Rightarrow> remove_if_exists env t s2)
                  else remove_if_exists env t s2)"
      "r = (encode_succeeded oc s2 t \<and> shutil_move env t i s2 \<noteq> None)" "i' = i"
      using assms big vi nt run
      by (auto simp: perform_pre_resize_def Let_def split: option.splits if_splits)
    have ev: "events s' = events s @ [\<lparr>ev_call = ?c, ev_run = Some (?cmd, oc), ev_ok = r\<rparr>]"
      using res(1) s2(1) by (auto simp: shutil_move_def split: option.splits if_splits)
    show ?thesis
    proof (cases r)
      case True
      then obtain s3 where mv: "shutil_move env t i s2 = Some s3" and enc: "encode_succeeded oc s2 t"
        using res(2) by auto
      from enc obtain b where b: "files s2 t = Some b"
        by (auto simp: encode_succeeded_def exists_def split: run_outcome.splits)
      have "files s3 = (files s)(i \<mapsto> b)"
        using mv b s2(2) t(1)
        by (auto simp: shutil_move_def fun_upd_twist split: if_splits)
      with big vi ev True res mv enc show ?thesis by auto
    next
      case False
      then have s': "s' = log_event ?c (Some (?cmd, oc)) r (remove_if_exists env t s2)"
        using res by (auto split: option.splits)
      have "files (remove_if_exists env t s2) = files s \<or>
            (\<exists>c. remove_raises env t \<and> files (remove_if_exists env t s2) = (files s)(t \<mapsto> c))"
        using s2(2) t(1)
        by (auto simp: remove_if_exists_def os_remove_def exists_def)
      with big vi ev False s' t res(3) show ?thesis by auto
    qed
  qed
qed

lemma effect_refl [simp]: "effect env A s s"
  by (simp add: effect_def)



lemma effect_Base: "effect env A s s' \<Longrightarrow> Base x \<notin> A \<Longrightarrow> files s' (Base x) = files s (Base x)"
  unfolding effect_def untouched_def by auto

lemma effect_rm: "effect env A s s' \<Longrightarrow> removals_succeed env \<Longrightarrow> q \<notin> A \<Longrightarrow> files s' q = files s q"
  unfolding effect_def untouched_def by auto



lemma scaling_effect:
  "perform_scaling_step p env i out s = Inr (s', ok) \<Longrightarrow> effect env {out} s s'"
  using scaling_step_spec(1) by (fastforce simp: effect_def elim: untouched_mono)

lemma pre_resize_effect:
  "perform_pre_resize p env i vi s = Inr (s', r, i') \<Longrightarrow> effect env {i} s s'"
  by (drule pre_resize_cases)
     (auto simp: effect_def untouched_def removals_succeed_def split: if_splits)

lemma remove_if_exists_effect: "effect env {q} s (remove_if_exists env q s)"
  by (simp add: effect_def untouched_def files_remove_if_exists)




lemma validate_scaling_idem [simp]:
  "validate_and_set_scaling (validate_and_set_scaling x) = validate_and_set_scaling x"
  by (auto simp: validate_and_set_scaling_def split: option.splits)

lemma validate_vaapi_idem [simp]:
  "validate_vaapi_request (validate_vaapi_request u f l) f True = validate_vaapi_request u f l"
  by (auto simp: validate_vaapi_request_def)


lemma determine_target_format_cases:
  "determine_target_format c = (''h264'', h264_format) \<or>
   determine_target_format c = (''vp9'', webm_format) \<or>
   determine_target_format c = (''av1'', webm_format)"
  by (auto simp: determine_target_format_def config_defs Let_def split: option.splits)

lemma constructed_fields:
  assumes "constructed p"
  shows "enable_transcoding p = truthy (ffmpeg_path p)"
    and "use_vaapi p \<Longrightarrow> truthy (ffmpeg_path p)"
    and "(target_codec p = ''h264'' \<and> target_extension p = ''.mp4'' \<and> target_mime_type p = ''video/mp4'') \<or>
         (target_codec p = ''vp9'' \<and> target_extension p = ''.webm'' \<and> target_mime_type p = ''video/webm'') \<or>
         (target_codec p = ''av1'' \<and> target_extension p = ''.webm'' \<and> target_mime_type p = ''video/webm'')"
proof -
  let ?q = "init_processor (ffmpeg_path p) (ffprobe_path p) (scaling_factor p) (use_vaapi p)
            (user_codec_choice p) True (magic_available p)"
  have e: "p = ?q" using assms by (simp add: constructed_def)
  have "enable_transcoding ?q = truthy (ffmpeg_path p)"
    by (simp add: init_processor_def ENABLE_TRANSCODING_def split: prod.splits)
  with e show "enable_transcoding p = truthy (ffmpeg_path p)" by metis
  have "use_vaapi ?q \<longrightarrow> truthy (ffmpeg_path p)"
    by (auto simp: init_processor_def validate_vaapi_request_def split: prod.splits if_splits)
  with e show "use_vaapi p \<Longrightarrow> truthy (ffmpeg_path p)" by metis
  have "(target_codec ?q = ''h264'' \<and> target_extension ?q = ''.mp4'' \<and> target_mime_type ?q = ''video/mp4'') \<or>
         (target_codec ?q = ''vp9'' \<and> target_extension ?q = ''.webm'' \<and> target_mime_type ?q = ''video/webm'') \<or>
         (target_codec ?q = ''av1'' \<and> target_extension ?q = ''.webm'' \<and> target_mime_type ?q = ''video/webm'')"
    using determine_target_format_cases [of "user_codec_choice p"]
    by (auto simp: init_processor_def h264_format_def webm_format_def)
  with e show "(target_codec p = ''h264'' \<and> target_extension p = ''.mp4'' \<and> target_mime_type p = ''video/mp4'') \<or>
         (target_codec p = ''vp9'' \<and> target_extension p = ''.webm'' \<and> target_mime_type p = ''video/webm'') \<or>
         (target_codec p = ''av1'' \<and> target_extension p = ''.webm'' \<and> target_mime_type p = ''video/webm'')"
    by metis
qed



lemma constructed_codec_options:
  assumes "constructed p"
  shows "\<exists>opts. codec_options (target_codec p) v = Inr opts"
  using constructed_fields(3) [OF assms]
  by (auto simp: codec_options_def config_defs)


lemma is_final_attempt_simps [simp]:
  "is_final_attempt (a1_call p input codec)"
  "is_final_attempt (a2_call p)"
  "is_final_attempt (a3_call p i c d)"
  "\<not> is_final_attempt (inter_call input)"
  by (simp_all add: is_final_attempt_def a1_call_def a2_call_def a3_call_def inter_call_def)





lemma logged_refl [simp]: "logged p env s s"
  by (simp add: logged_def)


lemma logged_same_events: "events s' = events s \<Longrightarrow> logged p env s s'"
  by (simp add: logged_def)




lemma cascade_total:
  assumes "constructed p"
  shows "\<exists>r. final_encode_cascade p env input codec s = Inr r"
proof -
  have fs: "\<And>site i sc d v s. \<exists>s' ok. perform_final_encode_step p env site i (final_output_path p)
      (target_codec p) sc d v s = Inr (s', ok)"
    using constructed_codec_options [OF assms] final_step_total by blast
  have a: "\<And>s. \<exists>s' ok. phase_1a p env input codec s = Inr (s', ok)"
    using fs by (auto simp: phase_1a_def)
  have b: "\<And>s. \<exists>s' ok ih. phase_1b p env input s = Inr (s', ok, ih)"
  proof -
    fix s
    obtain s2 okI where i: "perform_intermediate_h264_encode p env input intermediate_h264_path s = Inr (s2, okI)"
      using intermediate_total by blast
    obtain s3 ok2 where f: "perform_final_encode_step p env Attempt2_vaapi_from_h264
        intermediate_h264_path (final_output_path p) (target_codec p) (Some ''h264'') True True s2 = Inr (s3, ok2)"
      using fs by blast
    show "\<exists>s' ok ih. phase_1b p env input s = Inr (s', ok, ih)"
      using i f by (auto simp: phase_1b_def)
  qed
  have c: "\<And>s. \<exists>s' ok ih. phase_1 p env input codec s = Inr (s', ok, ih)"
  proof -
    fix s
    obtain s1 d where a1: "phase_1a p env input codec s = Inr (s1, d)" using a by blast
    obtain s2 ok2 ih2 where b1: "phase_1b p env input s1 = Inr (s2, ok2, ih2)" using b by blast
    show "\<exists>s' ok ih. phase_1 p env input codec s = Inr (s', ok, ih)"
      using a1 b1 by (auto simp: phase_1_def)
  qed
  have d: "\<And>s ih. \<exists>s' ok. phase_2 p env input codec ih s = Inr (s', ok)"
    using fs by (auto simp: phase_2_def)
  obtain s3 succ ih where c1: "phase_1 p env input codec s = Inr (s3, succ, ih)" using c by blast
  obtain s4 ok4 where d1: "phase_2 p env input codec ih s3 = Inr (s4, ok4)" using d by blast
  show ?thesis
    using c1 d1 by (auto simp: final_encode_cascade_def)
qed

section \<open>Example runs\<close>

section \<open>When an encode attempt reports success\<close>

lemma scaling_step_run:
  assumes "perform_scaling_step p env i out s = Inr (s', ok)"
  shows "ok = (truthy (ffmpeg_path p) \<and>
               (\<exists>factor b. scaling_factor p = Some factor \<and> b \<noteq> [] \<and>
                  ffmpeg_run env (files s) (scaling_cmd (str_of (ffmpeg_path p)) factor i out) =
                    Exited 0 (Some b)))"
    and "ok \<Longrightarrow> \<exists>factor. scaling_factor p = Some factor \<and>
            ffmpeg_run env (files s) (scaling_cmd (str_of (ffmpeg_path p)) factor i out) =
              Exited 0 (files s' out)"
  using assms
  by (auto simp: perform_scaling_step_def Let_def run_ffmpeg_def encode_succeeded_def exists_def
      getsize_def split: option.splits run_outcome.splits if_splits)

lemma intermediate_run:
  assumes "perform_intermediate_h264_encode p env i out s = Inr (s', ok)"
  shows "ok = (truthy (ffmpeg_path p) \<and>
               (\<exists>b. b \<noteq> [] \<and>
                  ffmpeg_run env (files s) (intermediate_cmd (str_of (ffmpeg_path p)) i out) =
                    Exited 0 (Some b)))"
    and "ok \<Longrightarrow> ffmpeg_run env (files s) (intermediate_cmd (str_of (ffmpeg_path p)) i out) =
              Exited 0 (files s' out)"
  using assms
  by (auto simp: perform_intermediate_h264_encode_def Let_def run_ffmpeg_def encode_succeeded_def
      exists_def getsize_def split: option.splits run_outcome.splits if_splits)

lemma final_step_run:
  assumes a: "perform_final_encode_step p env site i out tc sc d v s = Inr (s', ok)"
  shows "ok = (truthy (ffmpeg_path p) \<and>
               (\<exists>s1 t cmd b.
                  named_temporary_file env (if v then Tmp_final_vaapi else Tmp_final_cpu)
                    (path_ext out) s = Some (s1, t) \<and>
                  final_encode_cmd (str_of (ffmpeg_path p)) i out tc sc d v t = Inr cmd \<and>
                  ffmpeg_run env (files s1) cmd = Exited 0 (Some b) \<and> b \<noteq> [] \<and>
                  \<not> move_raises env t out))"
    and "ok \<Longrightarrow> \<exists>s1 t cmd.
            named_temporary_file env (if v then Tmp_final_vaapi else Tmp_final_cpu)
              (path_ext out) s = Some (s1, t) \<and>
            final_encode_cmd (str_of (ffmpeg_path p)) i out tc sc d v t = Inr cmd \<and>
            ffmpeg_run env (files s1) cmd = Exited 0 (files s' out)"
proof -
  let ?kind = "if v then Tmp_final_vaapi else Tmp_final_cpu"
  let ?R = "\<lambda>s1 t cmd b. named_temporary_file env ?kind (path_ext out) s = Some (s1, t) \<and>
                  final_encode_cmd (str_of (ffmpeg_path p)) i out tc sc d v t = Inr cmd \<and>
                  ffmpeg_run env (files s1) cmd = Exited 0 (Some b) \<and> b \<noteq> [] \<and>
                  \<not> move_raises env t out"
  let ?W = "\<lambda>s1 t cmd. named_temporary_file env ?kind (path_ext out) s = Some (s1, t) \<and>
            final_encode_cmd (str_of (ffmpeg_path p)) i out tc sc d v t = Inr cmd \<and>
            ffmpeg_run env (files s1) cmd = Exited 0 (files s' out)"
  have "ok = (truthy (ffmpeg_path p) \<and> (\<exists>s1 t cmd b. ?R s1 t cmd b)) \<and>
        (ok \<longrightarrow> (\<exists>s1 t cmd. ?W s1 t cmd))"
  proof (cases "truthy (ffmpeg_path p)")
    case False
    with a show ?thesis by (simp add: perform_final_encode_step_def)
  next
    case ff: True
    show ?thesis
    proof (cases "named_temporary_file env ?kind (path_ext out) s")
      case None
      with a ff show ?thesis by (simp add: perform_final_encode_step_def)
    next
      case (Some r)
      obtain s1 t where r: "r = (s1, t)" by (cases r)
      note nt = Some [unfolded r]
      from a ff nt obtain cmd where
        cmd: "final_encode_cmd (str_of (ffmpeg_path p)) i out tc sc d v t = Inr cmd"
        by (auto simp: perform_final_encode_step_def split: sum.splits)
      obtain s2 oc where run: "run_ffmpeg env cmd t s1 = (s2, oc)" by (cases "run_ffmpeg env cmd t s1")
      have oc: "oc = ffmpeg_run env (files s1) cmd"
        using run by (auto simp: run_ffmpeg_def split: run_outcome.splits)
      have es: "encode_succeeded oc s2 t = (\<exists>b. oc = Exited 0 (Some b) \<and> b \<noteq> [])"
        using run by (auto simp: run_ffmpeg_def encode_succeeded_def exists_def getsize_def
            split: run_outcome.splits)
      have wr: "\<And>b. oc = Exited 0 (Some b) \<Longrightarrow> files s2 t = Some b"
        using run by (auto simp: run_ffmpeg_def split: run_outcome.splits)
      show ?thesis
      proof (cases "encode_succeeded oc s2 t")
        case False
        with a ff nt cmd run have "\<not> ok"
          by (simp add: perform_final_encode_step_def Let_def)
        moreover have "\<not> (\<exists>s1 t cmd b. ?R s1 t cmd b)"
          using False es oc nt cmd by auto
        ultimately show ?thesis by simp
      next
        case True
        then obtain b where b: "oc = Exited 0 (Some b)" "b \<noteq> []" using es by auto
        show ?thesis
        proof (cases "shutil_move env t out s2")
          case None
          with a ff nt cmd run True have "\<not> ok"
            by (simp add: perform_final_encode_step_def Let_def)
          moreover have "move_raises env t out"
            using None wr [OF b(1)] by (simp add: shutil_move_None)
          then have "\<not> (\<exists>s1 t cmd b. ?R s1 t cmd b)"
            using nt cmd by auto
          ultimately show ?thesis by simp
        next
          case (Some s3)
          with a ff nt cmd run True have ok: "ok" and s': "files s' = files s3"
            by (auto simp: perform_final_encode_step_def Let_def)
          from shutil_move_Some [OF Some] wr [OF b(1)]
          have m: "\<not> move_raises env t out" "files s3 out = Some b" by auto
          have "?R s1 t cmd b" using nt cmd oc b m by simp
          moreover have "?W s1 t cmd" using nt cmd oc b m s' by simp
          ultimately show ?thesis using ok ff by blast
        qed
      qed
    qed
  qed
  then show "ok = (truthy (ffmpeg_path p) \<and> (\<exists>s1 t cmd b. ?R s1 t cmd b))"
    and "ok \<Longrightarrow> \<exists>s1 t cmd. ?W s1 t cmd"
    by blast+
qed

text \<open>
  C5 (amended). The scaling encode and the intermediate H.264 encode report success exactly
  when the encoder is there and its run on their command exits with status 0 leaving a
  non-empty output file; the output path then holds what that run wrote. The final encode
  step reports success exactly when, in addition, moving its temporary output to the final
  output path succeeds: a refused move makes the attempt report failure although the encoder
  exited with status 0 and wrote a non-empty file. In particular a run that cannot be started,
  exits non-zero, or leaves no or an empty output makes each of the three report failure.
\<close>

theorem encode_success_condition:
  "(perform_scaling_step p env i out s = Inr (s', ok) \<longrightarrow>
      ok = (truthy (ffmpeg_path p) \<and>
            (\<exists>factor b. scaling_factor p = Some factor \<and> b \<noteq> [] \<and>
               ffmpeg_run env (files s) (scaling_cmd (str_of (ffmpeg_path p)) factor i out) =
                 Exited 0 (Some b))) \<and>
      (ok \<longrightarrow> (\<exists>factor. scaling_factor p = Some factor \<and>
               ffmpeg_run env (files s) (scaling_cmd (str_of (ffmpeg_path p)) factor i out) =
                 Exited 0 (files s' out)))) \<and>
   (perform_intermediate_h264_encode p env i out s = Inr (s', ok) \<longrightarrow>
      ok = (truthy (ffmpeg_path p) \<and>
            (\<exists>b. b \<noteq> [] \<and>
               ffmpeg_run env (files s) (intermediate_cmd (str_of (ffmpeg_path p)) i out) =
                 Exited 0 (Some b))) \<and>
      (ok \<longrightarrow> ffmpeg_run env (files s) (intermediate_cmd (str_of (ffmpeg_path p)) i out) =
                 Exited 0 (files s' out))) \<and>
   (perform_final_encode_step p env site i out tc sc d v s = Inr (s', ok) \<longrightarrow>
      ok = (truthy (ffmpeg_path p) \<and>
            (\<exists>s1 t cmd b.
               named_temporary_file env (if v then Tmp_final_vaapi else Tmp_final_cpu)
                 (path_ext out) s = Some (s1, t) \<and>
               final_encode_cmd (str_of (ffmpeg_path p)) i out tc sc d v t = Inr cmd \<and>
               ffmpeg_run env (files s1) cmd = Exited 0 (Some b) \<and> b \<noteq> [] \<and>
               \<not> move_raises env t out)) \<and>
      (ok \<longrightarrow> (\<exists>s1 t cmd.
               named_temporary_file env (if v then Tmp_final_vaapi else Tmp_final_cpu)
                 (path_ext out) s = Some (s1, t) \<and>
               final_encode_cmd (str_of (ffmpeg_path p)) i out tc sc d v t = Inr cmd \<and>
               ffmpeg_run env (files s1) cmd = Exited 0 (files s' out))))"
proof (intro conjI impI)
  assume a: "perform_scaling_step p env i out s = Inr (s', ok)"
  show "ok = (truthy (ffmpeg_path p) \<and>
            (\<exists>factor b. scaling_factor p = Some factor \<and> b \<noteq> [] \<and>
               ffmpeg_run env (files s) (scaling_cmd (str_of (ffmpeg_path p)) factor i out) =
                 Exited 0 (Some b)))"
    by (rule scaling_step_run(1) [OF a])
  assume ok
  then show "\<exists>factor. scaling_factor p = Some factor \<and>
               ffmpeg_run env (files s) (scaling_cmd (str_of (ffmpeg_path p)) factor i out) =
                 Exited 0 (files s' out)"
    by (rule scaling_step_run(2) [OF a])
next
  assume a: "perform_intermediate_h264_encode p env i out s = Inr (s', ok)"
  show "ok = (truthy (ffmpeg_path p) \<and>
            (\<exists>b. b \<noteq> [] \<and>
               ffmpeg_run env (files s) (intermediate_cmd (str_of (ffmpeg_path p)) i out) =
                 Exited 0 (Some b)))"
    by (rule intermediate_run(1) [OF a])
  assume ok
  then show "ffmpeg_run env (files s) (intermediate_cmd (str_of (ffmpeg_path p)) i out) =
                 Exited 0 (files s' out)"
    by (rule intermediate_run(2) [OF a])
next
  assume a: "perform_final_encode_step p env site i out tc sc d v s = Inr (s', ok)"
  show "ok = (truthy (ffmpeg_path p) \<and>
            (\<exists>s1 t cmd b.
               named_temporary_file env (if v then Tmp_final_vaapi else Tmp_final_cpu)
                 (path_ext out) s = Some (s1, t) \<and>
               final_encode_cmd (str_of (ffmpeg_path p)) i out tc sc d v t = Inr cmd \<and>
               ffmpeg_run env (files s1) cmd = Exited 0 (Some b) \<and> b \<noteq> [] \<and>
               \<not> move_raises env t out))"
    by (rule final_step_run(1) [OF a])
  assume ok
  then show "\<exists>s1 t cmd.
               named_temporary_file env (if v then Tmp_final_vaapi else Tmp_final_cpu)
                 (path_ext out) s = Some (s1, t) \<and>
               final_encode_cmd (str_of (ffmpeg_path p)) i out tc sc d v t = Inr cmd \<and>
               ffmpeg_run env (files s1) cmd = Exited 0 (files s' out)"
    by (rule final_step_run(2) [OF a])
qed

lemma scaling_example:
  "(case perform_scaling_step proc_scale_vp9 env_ok (Base ''.mov'') scaled_path (dir_with (Base ''.mov'')) of
      Inl e \<Rightarrow> False | Inr (s', ok) \<Rightarrow> ok \<and> files s' scaled_path = Some [1])"
  by code_simp

lemma intermediate_example:
  "(case perform_intermediate_h264_encode proc_cpu env_ok (Base ''.mov'') intermediate_h264_path
          (dir_with (Base ''.mov'')) of
      Inl e \<Rightarrow> False | Inr (s', ok) \<Rightarrow> ok \<and> files s' intermediate_h264_path = Some [1])"
  by code_simp

lemma final_step_example:
  "(case perform_final_encode_step proc_cpu env_ok Attempt3_cpu_fallback (Base ''.mov'')
           (Base ''.mp4'') ''h264'' (Some ''mpeg4'') False False (dir_with (Base ''.mov'')) of
      Inl e \<Rightarrow> False | Inr (s', ok) \<Rightarrow> ok \<and> files s' (Base ''.mp4'') = Some [1])"
  by code_simp

theorem encode_success_condition_witness:
  "(\<exists>s'. perform_scaling_step proc_scale_vp9 env_ok (Base ''.mov'') scaled_path
            (dir_with (Base ''.mov'')) = Inr (s', True) \<and> files s' scaled_path = Some [1] \<and>
         (\<exists>factor. scaling_factor proc_scale_vp9 = Some factor \<and>
            ffmpeg_run env_ok (files (dir_with (Base ''.mov'')))
              (scaling_cmd (str_of (ffmpeg_path proc_scale_vp9)) factor (Base ''.mov'') scaled_path) =
            Exited 0 (files s' scaled_path))) \<and>
   (\<exists>s'. perform_intermediate_h264_encode proc_cpu env_ok (Base ''.mov'') intermediate_h264_path
            (dir_with (Base ''.mov'')) = Inr (s', True) \<and>
         files s' intermediate_h264_path = Some [1] \<and>
         ffmpeg_run env_ok (files (dir_with (Base ''.mov'')))
           (intermediate_cmd (str_of (ffmpeg_path proc_cpu)) (Base ''.mov'') intermediate_h264_path) =
         Exited 0 (files s' intermediate_h264_path)) \<and>
   (\<exists>s'. perform_final_encode_step proc_cpu env_ok Attempt3_cpu_fallback (Base ''.mov'')
            (Base ''.mp4'') ''h264'' (Some ''mpeg4'') False False (dir_with (Base ''.mov'')) =
            Inr (s', True) \<and> files s' (Base ''.mp4'') = Some [1] \<and>
         (\<exists>s1 t cmd.
            named_temporary_file env_ok Tmp_final_cpu (path_ext (Base ''.mp4''))
              (dir_with (Base ''.mov'')) = Some (s1, t) \<and>
            final_encode_cmd (str_of (ffmpeg_path proc_cpu)) (Base ''.mov'') (Base ''.mp4'') ''h264''
              (Some ''mpeg4'') False False t = Inr cmd \<and>
            ffmpeg_run env_ok (files s1) cmd = Exited 0 (files s' (Base ''.mp4''))))"
proof (intro conjI)
  obtain s1 where h: "perform_scaling_step proc_scale_vp9 env_ok (Base ''.mov'') scaled_path
      (dir_with (Base ''.mov'')) = Inr (s1, True)" and f: "files s1 scaled_path = Some [1]"
    using scaling_example by (auto split: sum.splits)
  from encode_success_condition [THEN conjunct1, rule_format, OF h] h f
  show "\<exists>s'. perform_scaling_step proc_scale_vp9 env_ok (Base ''.mov'') scaled_path
            (dir_with (Base ''.mov'')) = Inr (s', True) \<and> files s' scaled_path = Some [1] \<and>
         (\<exists>factor. scaling_factor proc_scale_vp9 = Some factor \<and>
            ffmpeg_run env_ok (files (dir_with (Base ''.mov'')))
              (scaling_cmd (str_of (ffmpeg_path proc_scale_vp9)) factor (Base ''.mov'') scaled_path) =
            Exited 0 (files s' scaled_path))"
    by simp
  obtain s2 where h: "perform_intermediate_h264_encode proc_cpu env_ok (Base ''.mov'')
      intermediate_h264_path (dir_with (Base ''.mov'')) = Inr (s2, True)"
    and f: "files s2 intermediate_h264_path = Some [1]"
    using intermediate_example by (auto split: sum.splits)
  from encode_success_condition [THEN conjunct2, THEN conjunct1, rule_format, OF h] h f
  show "\<exists>s'. perform_intermediate_h264_encode proc_cpu env_ok (Base ''.mov'') intermediate_h264_path
            (dir_with (Base ''.mov'')) = Inr (s', True) \<and>
         files s' intermediate_h264_path = Some [1] \<and>
         ffmpeg_run env_ok (files (dir_with (Base ''.mov'')))
           (intermediate_cmd (str_of (ffmpeg_path proc_cpu)) (Base ''.mov'') intermediate_h264_path) =
         Exited 0 (files s' intermediate_h264_path)"
    by simp
  obtain s3 where h: "perform_final_encode_step proc_cpu env_ok Attempt3_cpu_fallback (Base ''.mov'')
      (Base ''.mp4'') ''h264'' (Some ''mpeg4'') False False (dir_with (Base ''.mov'')) = Inr (s3, True)"
    and f: "files s3 (Base ''.mp4'') = Some [1]"
    using final_step_example by (auto split: sum.splits)
  from encode_success_condition [THEN conjunct2, THEN conjunct2, rule_format, OF h] h f
  show "\<exists>s'. perform_final_encode_step proc_cpu env_ok Attempt3_cpu_fallback (Base ''.mov'')
            (Base ''.mp4'') ''h264'' (Some ''mpeg4'') False False (dir_with (Base ''.mov'')) =
            Inr (s', True) \<and> files s' (Base ''.mp4'') = Some [1] \<and>
         (\<exists>s1 t cmd.
            named_temporary_file env_ok Tmp_final_cpu (path_ext (Base ''.mp4''))
              (dir_with (Base ''.mov'')) = Some (s1, t) \<and>
            final_encode_cmd (str_of (ffmpeg_path proc_cpu)) (Base ''.mov'') (Base ''.mp4'') ''h264''
              (Some ''mpeg4'') False False t = Inr cmd \<and>
            ffmpeg_run env_ok (files s1) cmd = Exited 0 (files s' (Base ''.mp4'')))"
    by simp
qed

text \<open>
  The encoder exits with status 0 and writes one byte, the move of the temporary output is
  refused, and the final encode step reports failure.
\<close>

theorem final_encode_move_refused_counterexample:
  "(case perform_final_encode_step proc_cpu env_move_refused Attempt3_cpu_fallback (Base ''.mov'')
           (Base ''.mp4'') ''h264'' (Some ''mpeg4'') False False (dir_with (Base ''.mov'')) of
      Inl e \<Rightarrow> False
    | Inr (s', ok) \<Rightarrow>
        \<not> ok \<and> files s' (Base ''.mp4'') = None \<and>
        map (map_option snd \<circ> ev_run) (events s') = [Some (Exited 0 (Some [1]))] \<and>
        (case named_temporary_file env_move_refused Tmp_final_cpu ''.mp4'' (dir_with (Base ''.mov'')) of
           None \<Rightarrow> False
         | Some (s1, t) \<Rightarrow>
             (case final_encode_cmd ''ffmpeg'' (Base ''.mov'') (Base ''.mp4'') ''h264''
                     (Some ''mpeg4'') False False t of
                Inl e \<Rightarrow> False
              | Inr cmd \<Rightarrow> ffmpeg_run env_move_refused (files s1) cmd = Exited 0 (Some [1]))))"
  by code_simp

section \<open>Audio options of the final encode attempts\<close>







section \<open>The calls of a cascade\<close>



section \<open>A failed probe\<close>




section \<open>The order of the attempts\<close>





end
